theory Spec2Isabelle
  imports Complex_Main "HOL-Library.Product_Lexorder"
begin

section \<open>Floats\<close>

text \<open>
  A Python float is one of: a finite double, the two infinities, NaN.  A finite double
  is represented by the rational number it denotes, so arithmetic on finite values is
  exact: the rounding of a result to 53 bits, overflow to infinity and the sign of zero
  are outside this development.  Infinities and NaN follow IEEE 754.
\<close>

datatype pyfloat = Fin rat | PInf | NInf | NaN

fun fneg :: "pyfloat \<Rightarrow> pyfloat" where
  "fneg (Fin a) = Fin (- a)"
| "fneg PInf = NInf"
| "fneg NInf = PInf"
| "fneg NaN = NaN"

fun fadd :: "pyfloat \<Rightarrow> pyfloat \<Rightarrow> pyfloat" where
  "fadd (Fin a) (Fin b) = Fin (a + b)"
| "fadd NaN _ = NaN"
| "fadd _ NaN = NaN"
| "fadd PInf NInf = NaN"
| "fadd NInf PInf = NaN"
| "fadd PInf _ = PInf"
| "fadd _ PInf = PInf"
| "fadd NInf _ = NInf"
| "fadd _ NInf = NInf"

definition fsub :: "pyfloat \<Rightarrow> pyfloat \<Rightarrow> pyfloat" where
  "fsub a b = fadd a (fneg b)"

text \<open>Division as numpy performs it on float64: a zero divisor gives an infinity or NaN.\<close>

fun fdiv :: "pyfloat \<Rightarrow> pyfloat \<Rightarrow> pyfloat" where
  "fdiv NaN _ = NaN"
| "fdiv _ NaN = NaN"
| "fdiv (Fin a) (Fin b) =
     (if b \<noteq> 0 then Fin (a / b)
      else if 0 < a then PInf else if a < 0 then NInf else NaN)"
| "fdiv (Fin a) _ = Fin 0"
| "fdiv PInf (Fin b) = (if 0 \<le> b then PInf else NInf)"
| "fdiv NInf (Fin b) = (if 0 \<le> b then NInf else PInf)"
| "fdiv _ _ = NaN"

text \<open>Round half to even, the rounding of Python's \<^verbatim>\<open>round\<close>.\<close>

definition round_half_even :: "rat \<Rightarrow> int" where
  "round_half_even x =
     (let f = \<lfloor>x\<rfloor>; d = x - of_int f
      in if d < 1 / 2 then f
         else if 1 / 2 < d then f + 1
         else if even f then f else f + 1)"

text \<open>
  \<^verbatim>\<open>round(x, ndigits)\<close> on a float: infinities and NaN round to themselves; a
  negative \<^verbatim>\<open>ndigits\<close> rounds to the left of the decimal point.
\<close>

fun py_round :: "pyfloat \<Rightarrow> int \<Rightarrow> pyfloat" where
  "py_round (Fin x) n =
     (if 0 \<le> n then Fin (of_int (round_half_even (x * 10 ^ nat n)) / 10 ^ nat n)
      else Fin (of_int (round_half_even (x / 10 ^ nat (- n))) * 10 ^ nat (- n)))"
| "py_round f n = f"

text \<open>
  The order of \<^verbatim>\<open><\<close> on floats other than NaN, as a key into a linear order:
  \<open>-inf\<close> below every finite value, \<open>inf\<close> above.
\<close>

fun fkey :: "pyfloat \<Rightarrow> int \<times> rat" where
  "fkey NInf = (- 1, 0)"
| "fkey (Fin a) = (0, a)"
| "fkey PInf = (1, 0)"
| "fkey NaN = (2, 0)"

section \<open>Strings\<close>

text \<open>
  A Python \<^verbatim>\<open>str\<close> is modelled by its UTF-8 bytes.  Only the ASCII white space
  and the ASCII digits are recognised as such.
\<close>

definition is_space :: "char \<Rightarrow> bool" where
  "is_space c = ((of_char c :: nat) \<in> {9, 10, 11, 12, 13, 28, 29, 30, 31, 32})"

definition is_digit :: "char \<Rightarrow> bool" where
  "is_digit c = (48 \<le> (of_char c :: nat) \<and> (of_char c :: nat) \<le> 57)"

definition digit_val :: "char \<Rightarrow> nat" where
  "digit_val c = of_char c - 48"

definition strip :: "string \<Rightarrow> string" where
  "strip s = rev (dropWhile is_space (rev (dropWhile is_space s)))"

text \<open>\<^verbatim>\<open>s.replace(old, new)\<close>: the non-overlapping occurrences, left to right.\<close>

function replace :: "string \<Rightarrow> string \<Rightarrow> string \<Rightarrow> string" where
  "replace old new s =
     (if old = [] then new @ concat (map (\<lambda>c. c # new) s)
      else if s = [] then []
      else if take (length old) s = old then new @ replace old new (drop (length old) s)
      else hd s # replace old new (tl s))"
  by pat_completeness auto
termination
  by (relation "measure (\<lambda>(old, new, s). length s)") auto

declare replace.simps [simp del]

text \<open>\<^verbatim>\<open>s.count(c)\<close> for a one-character \<open>c\<close>.\<close>

definition count_char :: "string \<Rightarrow> char \<Rightarrow> nat" where
  "count_char s c = length (filter (\<lambda>x. x = c) s)"

text \<open>\<^verbatim>\<open>s.split(d)\<close> for a one-character separator: every separator splits.\<close>

fun split_on_acc :: "char \<Rightarrow> string \<Rightarrow> string \<Rightarrow> string list" where
  "split_on_acc d cur [] = [rev cur]"
| "split_on_acc d cur (c # cs) =
     (if c = d then rev cur # split_on_acc d [] cs else split_on_acc d (c # cur) cs)"

definition split_on :: "char \<Rightarrow> string \<Rightarrow> string list" where
  "split_on d s = split_on_acc d [] s"

text \<open>\<^verbatim>\<open>s.split()\<close>: runs of white space separate, empty pieces are dropped.\<close>

fun split_ws_acc :: "string \<Rightarrow> string \<Rightarrow> string list" where
  "split_ws_acc cur [] = (if cur = [] then [] else [rev cur])"
| "split_ws_acc cur (c # cs) =
     (if is_space c
      then (if cur = [] then split_ws_acc [] cs else rev cur # split_ws_acc [] cs)
      else split_ws_acc (c # cur) cs)"

definition split_ws :: "string \<Rightarrow> string list" where
  "split_ws s = split_ws_acc [] s"

subsection \<open>The float constructor on a string\<close>

text \<open>
  \<^verbatim>\<open>float(s)\<close> accepts, between optional white space: an optional sign, then
  \<^verbatim>\<open>inf\<close>, \<^verbatim>\<open>infinity\<close> or \<^verbatim>\<open>nan\<close> in any case, or a decimal number
  \<^verbatim>\<open>digits [. [digits]] | . digits\<close> with an optional exponent; single
  underscores may separate digits.  Anything else raises \<^verbatim>\<open>ValueError\<close>, here
  \<open>None\<close>.
\<close>

fun digits_tail :: "nat \<Rightarrow> nat \<Rightarrow> string \<Rightarrow> nat \<times> nat \<times> string" where
  "digits_tail v n [] = (v, n, [])"
| "digits_tail v n (c # cs) =
     (if is_digit c then digits_tail (10 * v + digit_val c) (Suc n) cs
      else if c = CHR ''_'' \<and> (case cs of [] \<Rightarrow> False | d # _ \<Rightarrow> is_digit d)
      then digits_tail v n cs
      else (v, n, c # cs))"

text \<open>A digit part: its value, its number of digits, and the rest of the string.\<close>

definition digitpart :: "string \<Rightarrow> (nat \<times> nat \<times> string) option" where
  "digitpart s =
     (case s of
        [] \<Rightarrow> None
      | c # cs \<Rightarrow> if is_digit c then Some (digits_tail (digit_val c) 1 cs) else None)"

definition parse_mantissa :: "string \<Rightarrow> (rat \<times> string) option" where
  "parse_mantissa s =
     (case digitpart s of
        Some (ip, _, r1) \<Rightarrow>
          (case r1 of
             c # r2 \<Rightarrow>
               (if c = CHR ''.''
                then (case digitpart r2 of
                        Some (fp, k, r3) \<Rightarrow> Some (of_nat ip + of_nat fp / 10 ^ k, r3)
                      | None \<Rightarrow> Some (of_nat ip, r2))
                else Some (of_nat ip, r1))
           | [] \<Rightarrow> Some (of_nat ip, r1))
      | None \<Rightarrow>
          (case s of
             c # r2 \<Rightarrow>
               (if c = CHR ''.''
                then (case digitpart r2 of
                        Some (fp, k, r3) \<Rightarrow> Some (of_nat fp / 10 ^ k, r3)
                      | None \<Rightarrow> None)
                else None)
           | [] \<Rightarrow> None))"

definition parse_sign :: "string \<Rightarrow> bool \<times> string" where
  "parse_sign s =
     (case s of
        c # cs \<Rightarrow> if c = CHR ''-'' then (True, cs) else if c = CHR ''+'' then (False, cs)
                  else (False, s)
      | [] \<Rightarrow> (False, s))"

definition parse_exponent :: "string \<Rightarrow> int option" where
  "parse_exponent s =
     (case s of
        [] \<Rightarrow> Some 0
      | c # cs \<Rightarrow>
          if c = CHR ''e'' \<or> c = CHR ''E''
          then (case parse_sign cs of
                  (neg, ds) \<Rightarrow>
                    (case digitpart ds of
                       Some (e, _, []) \<Rightarrow> Some (if neg then - int e else int e)
                     | _ \<Rightarrow> None))
          else None)"

definition scale10 :: "rat \<Rightarrow> int \<Rightarrow> rat" where
  "scale10 m e = (if 0 \<le> e then m * 10 ^ nat e else m / 10 ^ nat (- e))"

definition lower :: "string \<Rightarrow> string" where
  "lower s = map (\<lambda>c. if 65 \<le> (of_char c :: nat) \<and> (of_char c :: nat) \<le> 90
                       then char_of ((of_char c :: nat) + 32) else c) s"

definition py_float :: "string \<Rightarrow> pyfloat option" where
  "py_float s =
     (case parse_sign (strip s) of
        (neg, body) \<Rightarrow>
          (let sgn = (\<lambda>f. if neg then fneg f else f)
           in if lower body = ''inf'' \<or> lower body = ''infinity'' then Some (sgn PInf)
              else if lower body = ''nan'' then Some NaN
              else (case parse_mantissa body of
                      None \<Rightarrow> None
                    | Some (m, rest) \<Rightarrow>
                        (case parse_exponent rest of
                           None \<Rightarrow> None
                         | Some e \<Rightarrow> Some (sgn (Fin (scale10 m e)))))))"

section \<open>Cells\<close>

text \<open>
  The values a table cell holds.  \<open>PyNone\<close> and \<open>Num NaN\<close> are the two missing
  values; pandas treats them alike (\<^verbatim>\<open>isna\<close>).
\<close>

datatype cell = PyNone | Num pyfloat | Str string | Bool bool | Ts int | Tup cell cell

definition isna :: "cell \<Rightarrow> bool" where
  "isna c = (c = PyNone \<or> c = Num NaN)"

definition of_opt :: "pyfloat option \<Rightarrow> cell" where
  "of_opt x = (case x of None \<Rightarrow> PyNone | Some f \<Rightarrow> Num f)"

section \<open>utils.py: the scalar parsers\<close>

definition currency_marks :: "string list" where
  "currency_marks =
     [''$'', ''US$'', ''Bs'', ''Bs.'', [CHR 0xE2, CHR 0x82, CHR 0xAC], [CHR 0xC2, CHR 0xA2]]"

definition to_number :: "cell \<Rightarrow> pyfloat option" where
  "to_number v =
     (if isna v then None
      else case v of
        Str s0 \<Rightarrow>
          (let s1 = strip s0;
               s2 = foldl (\<lambda>s ch. replace ch [] s) s1 currency_marks;
               s3 = replace '' '' [] s2;
               s4 = (if count_char s3 CHR '','' = 1 \<and> 0 < count_char s3 CHR ''.''
                     then replace '','' ''.'' (replace ''.'' [] s3)
                     else if count_char s3 CHR '','' = 1 \<and> count_char s3 CHR ''.'' = 0
                     then replace '','' ''.'' s3
                     else replace '','' [] s3)
           in py_float s4)
      | Num f \<Rightarrow> Some f
      | Bool b \<Rightarrow> Some (Fin (if b then 1 else 0))
      | _ \<Rightarrow> None)"

definition extract_latlon :: "cell \<Rightarrow> pyfloat option \<times> pyfloat option" where
  "extract_latlon v =
     (case v of
        Str val \<Rightarrow>
          (if CHR '','' \<notin> set val then (None, None)
           else
             (case (case split_on CHR '','' val of
                      [lat_str, lon_str] \<Rightarrow>
                        (case (py_float lat_str, py_float lon_str) of
                           (Some a, Some b) \<Rightarrow> Some (a, b)
                         | _ \<Rightarrow> None)
                    | _ \<Rightarrow> None) of
                Some (a, b) \<Rightarrow> (Some a, Some b)
              | None \<Rightarrow>
                  (case split_ws val of
                     p0 # p1 # _ \<Rightarrow>
                       (case (py_float p0, py_float p1) of
                          (Some a, Some b) \<Rightarrow> (Some a, Some b)
                        | _ \<Rightarrow> (None, None))
                   | _ \<Rightarrow> (None, None))))
      | _ \<Rightarrow> (None, None))"

section \<open>Tables\<close>

text \<open>
  A pandas \<^verbatim>\<open>DataFrame\<close>: the column labels in order, and the rows in order, each
  row giving the cell of every column.  A row is read only at labels of \<open>columns\<close>.
\<close>

record 'c frame =
  columns :: "string list"
  rows :: "(string \<Rightarrow> 'c) list"

text \<open>
  \<^verbatim>\<open>df[c] = ...\<close> with a value computed row by row: an existing column is
  overwritten in place, a new one is appended.
\<close>

definition set_col :: "string \<Rightarrow> ((string \<Rightarrow> 'c) \<Rightarrow> 'c) \<Rightarrow> 'c frame \<Rightarrow> 'c frame" where
  "set_col c f df =
     df\<lparr>columns := (if c \<in> set (columns df) then columns df else columns df @ [c]),
        rows := map (\<lambda>r. r(c := f r)) (rows df)\<rparr>"

text \<open>A numeric column seen as float64: a missing value is NaN.\<close>

definition num_of :: "cell \<Rightarrow> pyfloat" where
  "num_of c = (case c of Num f \<Rightarrow> f | _ \<Rightarrow> NaN)"

text \<open>\<^verbatim>\<open>a.fillna(b)\<close>, cell by cell.\<close>

definition fillna :: "cell \<Rightarrow> cell \<Rightarrow> cell" where
  "fillna a b = (if isna a then b else a)"

text \<open>\<^verbatim>\<open>s.replace({0: pd.NA})\<close>, cell by cell.\<close>

definition replace_zero :: "cell \<Rightarrow> cell" where
  "replace_zero c = (if c = Num (Fin 0) then PyNone else c)"

section \<open>utils.py: load_sales_csv\<close>

text \<open>
  \<^verbatim>\<open>pd.read_csv(path, sep=';', dtype=str)\<close> followed by the stripping of the
  column labels gives the table the function works on: every cell a string, or missing
  (NaN) where the field is empty.  That table is the argument here, with cells
  \<open>Some s\<close> and \<open>None\<close>.  \<^verbatim>\<open>pd.to_datetime(..., dayfirst=True,
  errors='coerce')\<close> on one string is the parameter \<open>to_datetime\<close>.
\<close>

definition numeric_cols :: "string list" where
  "numeric_cols = [''Unidades'', ''VtaFacturada'', ''Costo'', ''ValVentaLi'']"

text \<open>\<^verbatim>\<open>astype(str)\<close> on such a cell: NaN becomes the string \<^verbatim>\<open>nan\<close>.\<close>

definition astype_str :: "string option \<Rightarrow> string" where
  "astype_str x = (case x of None \<Rightarrow> ''nan'' | Some s \<Rightarrow> s)"

definition raw_cell :: "string option \<Rightarrow> cell" where
  "raw_cell x = (case x of None \<Rightarrow> Num NaN | Some s \<Rightarrow> Str s)"

text \<open>\<^verbatim>\<open>df[col].astype(str).map(_to_number)\<close> on one cell.\<close>

definition num_cell :: "string option \<Rightarrow> cell" where
  "num_cell x = of_opt (to_number (Str (astype_str x)))"

text \<open>
  The loop over \<open>numeric_cols\<close>: each of them that the table has is replaced by its
  numbers; the other columns keep their text.
\<close>

definition normalize_numerics :: "string option frame \<Rightarrow> cell frame" where
  "normalize_numerics df =
     \<lparr>columns = columns df,
      rows = map (\<lambda>r col.
                if col \<in> set numeric_cols \<and> col \<in> set (columns df)
                then num_cell (r col)
                else raw_cell (r col)) (rows df)\<rparr>"

definition date_cell :: "(string \<Rightarrow> int option) \<Rightarrow> cell \<Rightarrow> cell" where
  "date_cell to_datetime c =
     (case c of
        Str s \<Rightarrow> (case to_datetime s of Some t \<Rightarrow> Ts t | None \<Rightarrow> PyNone)
      | _ \<Rightarrow> PyNone)"

definition geo_cluster_cell :: "int \<Rightarrow> (string \<Rightarrow> cell) \<Rightarrow> cell" where
  "geo_cluster_cell p r =
     (if \<not> isna (r ''lat'') \<and> \<not> isna (r ''lon'')
      then Tup (Num (py_round (num_of (r ''lat'')) p)) (Num (py_round (num_of (r ''lon'')) p))
      else Tup PyNone PyNone)"

text \<open>The coordinate pair of a row, from \<^verbatim>\<open>df['Georeferenciado'].fillna('')\<close>.\<close>

definition row_latlon :: "(string \<Rightarrow> cell) \<Rightarrow> pyfloat option \<times> pyfloat option" where
  "row_latlon r = extract_latlon (fillna (r ''Georeferenciado'') (Str []))"

text \<open>The function, block by block.  First the dates and their validity flag.\<close>

definition parse_dates :: "(string \<Rightarrow> int option) \<Rightarrow> cell frame \<Rightarrow> cell frame" where
  "parse_dates to_datetime df =
     (if ''FechaVta'' \<in> set (columns df)
      then set_col ''FechaVta_valid'' (\<lambda>r. Bool (\<not> isna (r ''FechaVta'')))
             (set_col ''FechaVta'' (\<lambda>r. date_cell to_datetime (r ''FechaVta''))
                (set_col ''FechaVta_raw'' (\<lambda>r. r ''FechaVta'') df))
      else set_col ''FechaVta_valid'' (\<lambda>r. Bool False) df)"

text \<open>The revenue alternatives and the default revenue.\<close>

definition prepare_revenue :: "cell frame \<Rightarrow> cell frame" where
  "prepare_revenue df0 =
     (let df = (if ''ValVentaLi'' \<in> set (columns df0)
                then set_col ''revenue_val'' (\<lambda>r. r ''ValVentaLi'') df0
                else set_col ''revenue_val'' (\<lambda>r. PyNone) df0);
          df = (if ''VtaFacturada'' \<in> set (columns df)
                then set_col ''revenue_vta'' (\<lambda>r. r ''VtaFacturada'') df
                else set_col ''revenue_vta'' (\<lambda>r. PyNone) df)
      in set_col ''revenue_default''
           (\<lambda>r. fillna (r ''revenue_vta'') (r ''revenue_val'')) df)"

text \<open>The coordinates.\<close>

definition extract_coords :: "cell frame \<Rightarrow> cell frame" where
  "extract_coords df0 =
     (let df = set_col ''lat'' (\<lambda>r. PyNone) df0;
          df = set_col ''lon'' (\<lambda>r. PyNone) df
      in if ''Georeferenciado'' \<in> set (columns df)
         then set_col ''lon'' (\<lambda>r. of_opt (snd (row_latlon r)))
                (set_col ''lat'' (\<lambda>r. of_opt (fst (row_latlon r))) df)
         else df)"

text \<open>An alias column, made only when its source column exists.\<close>

definition alias_col :: "string \<Rightarrow> string \<Rightarrow> cell frame \<Rightarrow> cell frame" where
  "alias_col src dst df = (if src \<in> set (columns df) then set_col dst (\<lambda>r. r src) df else df)"

definition conveniences :: "cell frame \<Rightarrow> cell frame" where
  "conveniences df0 =
     (let df = alias_col ''NombreComercial'' ''cliente'' df0;
          df = alias_col ''DescMaterial'' ''producto'' df;
          df = alias_col ''DescGrArticulo'' ''categoria'' df;
          df = alias_col ''Ciudad'' ''ciudad'' df
      in alias_col ''ZonaVenta'' ''zona'' df)"

text \<open>The margin and its ratio to the line revenue.\<close>

definition add_margin :: "cell frame \<Rightarrow> cell frame" where
  "add_margin df =
     (if ''Costo'' \<in> set (columns df) \<and> ''ValVentaLi'' \<in> set (columns df)
      then set_col ''margin_pct''
             (\<lambda>r. Num (fdiv (num_of (r ''margin''))
                              (num_of (replace_zero (r ''ValVentaLi'')))))
             (set_col ''margin''
                (\<lambda>r. Num (fsub (num_of (r ''ValVentaLi'')) (num_of (r ''Costo'')))) df)
      else df)"

definition load_sales_csv ::
  "(string \<Rightarrow> int option) \<Rightarrow> string option frame \<Rightarrow> int \<Rightarrow> cell frame" where
  "load_sales_csv to_datetime df0 geo_cluster_precision =
     (let df = normalize_numerics df0;
          df = parse_dates to_datetime df;
          df = prepare_revenue df;
          df = extract_coords df;
          df = conveniences df;
          df = set_col ''geo_cluster'' (geo_cluster_cell geo_cluster_precision) df
      in add_margin df)"

section \<open>utils.py: aggregate_geo_clusters\<close>

datatype error = KeyError | Unsupported

record bucket =
  cluster :: "pyfloat \<times> pyfloat"
  latitude :: pyfloat
  longitude :: pyfloat
  revenue :: pyfloat
  count :: nat

text \<open>The group aggregations on a float column: missing values are skipped.\<close>

definition pd_sum :: "cell list \<Rightarrow> pyfloat" where
  "pd_sum cs = foldl fadd (Fin 0) (map num_of (filter (\<lambda>c. \<not> isna c) cs))"

definition pd_count :: "cell list \<Rightarrow> nat" where
  "pd_count cs = length (filter (\<lambda>c. \<not> isna c) cs)"

definition pd_mean :: "cell list \<Rightarrow> pyfloat" where
  "pd_mean cs =
     (if pd_count cs = 0 then NaN else fdiv (pd_sum cs) (Fin (of_nat (pd_count cs))))"

definition numeric_cell :: "cell \<Rightarrow> bool" where
  "numeric_cell c = (case c of PyNone \<Rightarrow> True | Num _ \<Rightarrow> True | _ \<Rightarrow> False)"

text \<open>
  The part of pandas modelled here is the one the normalised table lives in: the three
  selected columns hold floats or missing values, and the revenue column is none of
  \<^verbatim>\<open>lat\<close>, \<^verbatim>\<open>lon\<close>, \<^verbatim>\<open>cluster\<close>.
\<close>

definition supported :: "cell frame \<Rightarrow> string \<Rightarrow> bool" where
  "supported df revenue_col =
     (revenue_col \<notin> {''lat'', ''lon'', ''cluster''} \<and>
      list_all (\<lambda>r. numeric_cell (r ''lat'') \<and> numeric_cell (r ''lon'') \<and>
                     numeric_cell (r revenue_col)) (rows df))"

definition cluster_key :: "int \<Rightarrow> (string \<Rightarrow> cell) \<Rightarrow> pyfloat \<times> pyfloat" where
  "cluster_key precision r =
     (py_round (num_of (r ''lat'')) precision, py_round (num_of (r ''lon'')) precision)"

text \<open>The order of Python tuples of two floats.\<close>

definition kkey :: "pyfloat \<times> pyfloat \<Rightarrow> (int \<times> rat) \<times> (int \<times> rat)" where
  "kkey k = (fkey (fst k), fkey (snd k))"

text \<open>
  \<^verbatim>\<open>groupby('cluster').agg(...)\<close>: one row per distinct key, the keys in
  ascending order (\<^verbatim>\<open>sort=True\<close> is the default).
\<close>

definition make_bucket ::
  "int \<Rightarrow> string \<Rightarrow> (string \<Rightarrow> cell) list \<Rightarrow> pyfloat \<times> pyfloat \<Rightarrow> bucket" where
  "make_bucket precision revenue_col tmp k =
     (let g = filter (\<lambda>r. cluster_key precision r = k) tmp
      in \<lparr>cluster = k,
          latitude = pd_mean (map (\<lambda>r. r ''lat'') g),
          longitude = pd_mean (map (\<lambda>r. r ''lon'') g),
          revenue = pd_sum (map (\<lambda>r. r revenue_col) g),
          count = pd_count (map (\<lambda>r. r revenue_col) g)\<rparr>)"

definition groupby_agg :: "int \<Rightarrow> string \<Rightarrow> (string \<Rightarrow> cell) list \<Rightarrow> bucket list" where
  "groupby_agg precision revenue_col tmp =
     map (make_bucket precision revenue_col tmp)
       (sort_key kkey (remdups (map (cluster_key precision) tmp)))"

text \<open>
  \<^verbatim>\<open>sort_values('revenue', ascending=False)\<close>: the rows whose revenue is NaN go
  last; the others are reversed, sorted in ascending order and reversed again.  The
  ascending sort is taken stable.
\<close>

definition sort_values_desc :: "bucket list \<Rightarrow> bucket list" where
  "sort_values_desc agg =
     rev (sort_key (\<lambda>b. fkey (revenue b)) (rev (filter (\<lambda>b. revenue b \<noteq> NaN) agg)))
     @ filter (\<lambda>b. revenue b = NaN) agg"

definition aggregate_geo_clusters :: "cell frame \<Rightarrow> int \<Rightarrow> string \<Rightarrow> error + bucket list" where
  "aggregate_geo_clusters df precision revenue_col =
     (if rows df = [] \<or> columns df = [] then Inr []
      else if ''lat'' \<notin> set (columns df) \<or> ''lon'' \<notin> set (columns df) then Inr []
      else if revenue_col \<notin> set (columns df) then Inl KeyError
      else if \<not> supported df revenue_col then Inl Unsupported
      else
        (let tmp = filter (\<lambda>r. \<not> isna (r ''lat'') \<and> \<not> isna (r ''lon'')) (rows df)
         in if tmp = [] then Inr []
            else Inr (sort_values_desc (groupby_agg precision revenue_col tmp))))"

text \<open>
  The records of a table that have both coordinates present.  In a table without a
  \<^verbatim>\<open>lat\<close> or a \<^verbatim>\<open>lon\<close> column no record has.
\<close>

definition has_coords :: "cell frame \<Rightarrow> (string \<Rightarrow> cell) \<Rightarrow> bool" where
  "has_coords df r =
     (''lat'' \<in> set (columns df) \<and> ''lon'' \<in> set (columns df) \<and>
      \<not> isna (r ''lat'') \<and> \<not> isna (r ''lon''))"

text \<open>A cell that is missing, or a finite number; and the number it adds to a sum.\<close>

definition finite_cell :: "cell \<Rightarrow> bool" where
  "finite_cell c = (case c of PyNone \<Rightarrow> True | Num (Fin a) \<Rightarrow> True | Num NaN \<Rightarrow> True | _ \<Rightarrow> False)"

definition rat_of_cell :: "cell \<Rightarrow> rat" where
  "rat_of_cell c = (case c of Num (Fin a) \<Rightarrow> a | _ \<Rightarrow> 0)"

text \<open>
  Descending order of revenue as \<^verbatim>\<open>sort_values\<close> understands it: a NaN revenue
  comes after every other.
\<close>

definition revenue_ge :: "pyfloat \<Rightarrow> pyfloat \<Rightarrow> bool" where
  "revenue_ge a b = (b = NaN \<or> (a \<noteq> NaN \<and> fkey b \<le> fkey a))"

section \<open>Example tables\<close>

text \<open>A sales export with one row: no invoiced amount, a line amount of 7, a cost of 5.\<close>

definition sales_one :: "string option frame" where
  "sales_one =
     \<lparr>columns = [''VtaFacturada'', ''ValVentaLi'', ''Costo''],
      rows = [(\<lambda>_. None)(''ValVentaLi'' := Some ''7'', ''Costo'' := Some ''5'')]\<rparr>"

text \<open>A row whose line amount is zero, and a row whose cost is the text \<^verbatim>\<open>-inf\<close>.\<close>

definition sales_zero :: "string option frame" where
  "sales_zero =
     \<lparr>columns = [''ValVentaLi'', ''Costo''],
      rows = [(\<lambda>_. None)(''ValVentaLi'' := Some ''0'', ''Costo'' := Some ''5'')]\<rparr>"

definition sales_inf :: "string option frame" where
  "sales_inf =
     \<lparr>columns = [''ValVentaLi'', ''Costo''],
      rows = [(\<lambda>_. None)(''ValVentaLi'' := Some ''1'', ''Costo'' := Some ''-inf'')]\<rparr>"

text \<open>Tables for the aggregator, with the columns lat, lon and rev.\<close>

definition geo_row :: "pyfloat \<Rightarrow> pyfloat \<Rightarrow> cell \<Rightarrow> string \<Rightarrow> cell" where
  "geo_row a b c = (\<lambda>_. PyNone)(''lat'' := Num a, ''lon'' := Num b, ''rev'' := c)"

definition geo_table :: "(string \<Rightarrow> cell) list \<Rightarrow> cell frame" where
  "geo_table rs = \<lparr>columns = [''lat'', ''lon'', ''rev''], rows = rs\<rparr>"

text \<open>One record whose revenue is missing.\<close>

definition geo_nil :: "cell frame" where
  "geo_nil = geo_table [geo_row (Fin 1) (Fin 1) PyNone]"

text \<open>Two records of one place, and a third elsewhere.\<close>

definition geo_three :: "cell frame" where
  "geo_three =
     geo_table [geo_row (Fin 1) (Fin 1) (Num (Fin 2)), geo_row (Fin 2) (Fin 2) (Num (Fin 5)),
                geo_row (Fin 1) (Fin 1) (Num (Fin 4))]"

text \<open>Revenues of both infinities in one place.\<close>

definition geo_inf :: "cell frame" where
  "geo_inf =
     geo_table [geo_row (Fin 1) (Fin 1) (Num PInf), geo_row (Fin 1) (Fin 1) (Num NInf),
                geo_row (Fin 2) (Fin 2) (Num (Fin 5))]"

text \<open>Two places with the same revenue, the one with the larger coordinates first.\<close>

definition geo_tie :: "cell frame" where
  "geo_tie =
     geo_table [geo_row (Fin 2) (Fin 2) (Num (Fin 5)), geo_row (Fin 1) (Fin 1) (Num (Fin 5))]"

text \<open>Latitudes 0.4996 and 0.5004, on either side of one half.\<close>

definition geo_half :: "cell frame" where
  "geo_half =
     geo_table [geo_row (Fin (4996 / 10000)) (Fin 0) (Num (Fin 1)),
                geo_row (Fin (5004 / 10000)) (Fin 0) (Num (Fin 1))]"

section \<open>Evaluating the string functions\<close>

lemma replace_Nil: "old \<noteq> [] \<Longrightarrow> replace old new [] = []"
  by (simp add: replace.simps)

lemma replace_hit:
  "old \<noteq> [] \<Longrightarrow> take (length old) (c # s) = old \<Longrightarrow>
   replace old new (c # s) = new @ replace old new (drop (length old) (c # s))"
  by (subst replace.simps) simp

lemma replace_miss:
  "old \<noteq> [] \<Longrightarrow> take (length old) (c # s) \<noteq> old \<Longrightarrow>
   replace old new (c # s) = c # replace old new s"
  by (subst replace.simps) simp

lemmas parse_defs = py_float_def strip_def is_space_def parse_sign_def lower_def
  parse_mantissa_def digitpart_def is_digit_def digit_val_def parse_exponent_def scale10_def

lemmas to_number_defs = to_number_def isna_def currency_marks_def count_char_def
  replace_Nil replace_hit replace_miss

section \<open>The scalar parsers on the documented examples\<close>

text \<open>
  C6.  The docstring of \<^verbatim>\<open>_to_number\<close> lists \<^verbatim>\<open>$1,234.56\<close> among the handled
  formats, that is as the number 1234.56.  The code takes the single comma for the
  decimal mark as soon as the string has a period, removes the period, and returns
  1.23456.
\<close>

theorem to_number_dollar_thousands:
  "to_number (Str ''$1,234.56'') = Some (Fin (123456 / 100000)) \<and>
   to_number (Str ''$1,234.56'') \<noteq> Some (Fin (123456 / 100))"
  by (simp add: to_number_defs parse_defs)

text \<open>
  C5.  A string with no comma is rejected by the first test of
  \<^verbatim>\<open>_extract_latlon\<close>, so the split on white space that the function attempts
  afterwards is never reached for it: \<^verbatim>\<open>"10.5 -66.9"\<close> gives no coordinates, where
  the pair (10.5, -66.9) was to be returned.
\<close>

theorem extract_latlon_space_separated:
  "extract_latlon (Str ''10.5 -66.9'') = (None, None) \<and>
   extract_latlon (Str ''10.5 -66.9'') \<noteq> (Some (Fin (105 / 10)), Some (Fin (- (669 / 10))))"
  by (simp add: extract_latlon_def)

section \<open>The normaliser, block by block\<close>

lemma columns_set_col: "set (columns (set_col c f df)) = insert c (set (columns df))"
  by (auto simp: set_col_def)

lemma rows_set_col: "rows (set_col c f df) = map (\<lambda>r. r(c := f r)) (rows df)"
  by (simp add: set_col_def)

lemma columns_normalize_numerics [simp]: "columns (normalize_numerics df) = columns df"
  by (simp add: normalize_numerics_def)

lemma columns_parse_dates:
  "set (columns (parse_dates td df)) =
     (if ''FechaVta'' \<in> set (columns df) then {''FechaVta_raw'', ''FechaVta_valid''}
      else {''FechaVta_valid''}) \<union> set (columns df)"
  by (auto simp: parse_dates_def columns_set_col)

lemma columns_prepare_revenue:
  "set (columns (prepare_revenue df)) =
     {''revenue_val'', ''revenue_vta'', ''revenue_default''} \<union> set (columns df)"
  by (auto simp: prepare_revenue_def Let_def columns_set_col)

lemma columns_extract_coords:
  "set (columns (extract_coords df)) = {''lat'', ''lon''} \<union> set (columns df)"
  by (auto simp: extract_coords_def Let_def columns_set_col)

lemma columns_alias_col:
  "set (columns (alias_col src dst df)) =
     (if src \<in> set (columns df) then {dst} else {}) \<union> set (columns df)"
  by (auto simp: alias_col_def columns_set_col)

lemma columns_conveniences:
  "set (columns (conveniences df)) =
     (if ''NombreComercial'' \<in> set (columns df) then {''cliente''} else {}) \<union>
     (if ''DescMaterial'' \<in> set (columns df) then {''producto''} else {}) \<union>
     (if ''DescGrArticulo'' \<in> set (columns df) then {''categoria''} else {}) \<union>
     (if ''Ciudad'' \<in> set (columns df) then {''ciudad''} else {}) \<union>
     (if ''ZonaVenta'' \<in> set (columns df) then {''zona''} else {}) \<union> set (columns df)"
  unfolding conveniences_def Let_def columns_alias_col by auto

lemma columns_add_margin:
  "set (columns (add_margin df)) =
     (if ''Costo'' \<in> set (columns df) \<and> ''ValVentaLi'' \<in> set (columns df)
      then {''margin'', ''margin_pct''} else {}) \<union> set (columns df)"
  by (auto simp: add_margin_def columns_set_col)

text \<open>Reading cells that a block does not write gives what they held before it.\<close>

lemma map_set_col_ign:
  "(\<And>r v. g (r(c := v)) = g r) \<Longrightarrow> map g (rows (set_col c f df)) = map g (rows df)"
  by (simp add: rows_set_col)

lemma map_parse_dates_ign:
  assumes "\<And>r v. g (r(''FechaVta_raw'' := v)) = g r"
      and "\<And>r v. g (r(''FechaVta'' := v)) = g r"
      and "\<And>r v. g (r(''FechaVta_valid'' := v)) = g r"
  shows "map g (rows (parse_dates td df)) = map g (rows df)"
  by (simp add: parse_dates_def map_set_col_ign assms)

lemma map_prepare_revenue_ign:
  assumes "\<And>r v. g (r(''revenue_val'' := v)) = g r"
      and "\<And>r v. g (r(''revenue_vta'' := v)) = g r"
      and "\<And>r v. g (r(''revenue_default'' := v)) = g r"
  shows "map g (rows (prepare_revenue df)) = map g (rows df)"
  by (simp add: prepare_revenue_def Let_def map_set_col_ign assms)

lemma map_extract_coords_ign:
  assumes "\<And>r v. g (r(''lat'' := v)) = g r" and "\<And>r v. g (r(''lon'' := v)) = g r"
  shows "map g (rows (extract_coords df)) = map g (rows df)"
  by (simp add: extract_coords_def Let_def map_set_col_ign assms)

lemma map_alias_col_ign:
  assumes "\<And>r v. g (r(dst := v)) = g r"
  shows "map g (rows (alias_col src dst df)) = map g (rows df)"
  by (simp add: alias_col_def map_set_col_ign assms)

lemma map_conveniences_ign:
  assumes "\<And>r v. g (r(''cliente'' := v)) = g r" and "\<And>r v. g (r(''producto'' := v)) = g r"
      and "\<And>r v. g (r(''categoria'' := v)) = g r" and "\<And>r v. g (r(''ciudad'' := v)) = g r"
      and "\<And>r v. g (r(''zona'' := v)) = g r"
  shows "map g (rows (conveniences df)) = map g (rows df)"
  by (simp add: conveniences_def Let_def map_alias_col_ign assms)

lemma map_add_margin_ign:
  assumes "\<And>r v. g (r(''margin'' := v)) = g r" and "\<And>r v. g (r(''margin_pct'' := v)) = g r"
  shows "map g (rows (add_margin df)) = map g (rows df)"
  by (simp add: add_margin_def map_set_col_ign assms)

lemma columns_load:
  "set (columns (load_sales_csv td df p)) =
     set (columns df) \<union>
     {''FechaVta_valid'', ''revenue_val'', ''revenue_vta'', ''revenue_default'',
      ''lat'', ''lon'', ''geo_cluster''} \<union>
     (if ''FechaVta'' \<in> set (columns df) then {''FechaVta_raw''} else {}) \<union>
     (if ''NombreComercial'' \<in> set (columns df) then {''cliente''} else {}) \<union>
     (if ''DescMaterial'' \<in> set (columns df) then {''producto''} else {}) \<union>
     (if ''DescGrArticulo'' \<in> set (columns df) then {''categoria''} else {}) \<union>
     (if ''Ciudad'' \<in> set (columns df) then {''ciudad''} else {}) \<union>
     (if ''ZonaVenta'' \<in> set (columns df) then {''zona''} else {}) \<union>
     (if ''Costo'' \<in> set (columns df) \<and> ''ValVentaLi'' \<in> set (columns df)
      then {''margin'', ''margin_pct''} else {})"
proof -
  let ?A = "parse_dates td (normalize_numerics df)"
  let ?B = "extract_coords (prepare_revenue ?A)"
  have A: "set (columns ?A) =
      (if ''FechaVta'' \<in> set (columns df) then {''FechaVta_raw'', ''FechaVta_valid''}
       else {''FechaVta_valid''}) \<union> set (columns df)"
    by (simp add: columns_parse_dates)
  have B: "set (columns ?B) =
      {''lat'', ''lon'', ''revenue_val'', ''revenue_vta'', ''revenue_default''} \<union> set (columns ?A)"
    by (auto simp: columns_extract_coords columns_prepare_revenue)
  have mem: "\<And>c. c \<notin> {''FechaVta_raw'', ''FechaVta_valid'', ''lat'', ''lon'', ''revenue_val'',
      ''revenue_vta'', ''revenue_default''} \<Longrightarrow> c \<in> set (columns ?B) \<longleftrightarrow> c \<in> set (columns df)"
    unfolding B A by auto
  have C: "set (columns (conveniences ?B)) =
     (if ''NombreComercial'' \<in> set (columns df) then {''cliente''} else {}) \<union>
     (if ''DescMaterial'' \<in> set (columns df) then {''producto''} else {}) \<union>
     (if ''DescGrArticulo'' \<in> set (columns df) then {''categoria''} else {}) \<union>
     (if ''Ciudad'' \<in> set (columns df) then {''ciudad''} else {}) \<union>
     (if ''ZonaVenta'' \<in> set (columns df) then {''zona''} else {}) \<union> set (columns ?B)"
    unfolding columns_conveniences by (simp add: mem)
  let ?G = "set_col ''geo_cluster'' (geo_cluster_cell p) (conveniences ?B)"
  have G: "set (columns ?G) = insert ''geo_cluster'' (set (columns (conveniences ?B)))"
    by (simp add: columns_set_col)
  have memG: "(''Costo'' \<in> set (columns ?G) \<and> ''ValVentaLi'' \<in> set (columns ?G)) \<longleftrightarrow>
      (''Costo'' \<in> set (columns df) \<and> ''ValVentaLi'' \<in> set (columns df))"
    unfolding G C B A by auto
  have "set (columns (load_sales_csv td df p)) = set (columns (add_margin ?G))"
    by (simp add: load_sales_csv_def Let_def)
  also have "\<dots> = (if ''Costo'' \<in> set (columns df) \<and> ''ValVentaLi'' \<in> set (columns df)
      then {''margin'', ''margin_pct''} else {}) \<union> set (columns ?G)"
    unfolding columns_add_margin memG ..
  finally show ?thesis
    unfolding G C B A by auto
qed

text \<open>The blocks after the coordinates, and the blocks before the revenue.\<close>

lemma map_load_tail:
  assumes "\<And>r v. g (r(''cliente'' := v)) = g r" and "\<And>r v. g (r(''producto'' := v)) = g r"
      and "\<And>r v. g (r(''categoria'' := v)) = g r" and "\<And>r v. g (r(''ciudad'' := v)) = g r"
      and "\<And>r v. g (r(''zona'' := v)) = g r" and "\<And>r v. g (r(''geo_cluster'' := v)) = g r"
      and "\<And>r v. g (r(''margin'' := v)) = g r" and "\<And>r v. g (r(''margin_pct'' := v)) = g r"
  shows "map g (rows (load_sales_csv td df p)) =
         map g (rows (extract_coords (prepare_revenue (parse_dates td (normalize_numerics df)))))"
proof -
  let ?B = "extract_coords (prepare_revenue (parse_dates td (normalize_numerics df)))"
  let ?G = "set_col ''geo_cluster'' (geo_cluster_cell p) (conveniences ?B)"
  have "map g (rows (load_sales_csv td df p)) = map g (rows (add_margin ?G))"
    by (simp add: load_sales_csv_def Let_def)
  also have "\<dots> = map g (rows ?G)"
    by (rule map_add_margin_ign) (rule assms)+
  also have "\<dots> = map g (rows (conveniences ?B))"
    by (rule map_set_col_ign) (rule assms)
  also have "\<dots> = map g (rows ?B)"
    by (rule map_conveniences_ign) (rule assms)+
  finally show ?thesis .
qed

lemma map_load_head:
  assumes "\<And>r v. g (r(''FechaVta_raw'' := v)) = g r" and "\<And>r v. g (r(''FechaVta'' := v)) = g r"
      and "\<And>r v. g (r(''FechaVta_valid'' := v)) = g r"
      and "\<And>r v. g (r(''revenue_val'' := v)) = g r" and "\<And>r v. g (r(''revenue_vta'' := v)) = g r"
      and "\<And>r v. g (r(''revenue_default'' := v)) = g r"
  shows "map g (rows (prepare_revenue (parse_dates td (normalize_numerics df)))) =
         map g (rows (normalize_numerics df))"
proof -
  have "map g (rows (prepare_revenue (parse_dates td (normalize_numerics df)))) =
        map g (rows (parse_dates td (normalize_numerics df)))"
    by (rule map_prepare_revenue_ign) (rule assms)+
  also have "\<dots> = map g (rows (normalize_numerics df))"
    by (rule map_parse_dates_ign) (rule assms)+
  finally show ?thesis .
qed

lemma length_rows_load: "length (rows (load_sales_csv td df p)) = length (rows df)"
proof -
  have "map (\<lambda>r. ()) (rows (load_sales_csv td df p)) =
        map (\<lambda>r. ()) (rows (extract_coords (prepare_revenue (parse_dates td (normalize_numerics df)))))"
    by (rule map_load_tail) simp_all
  also have "\<dots> = map (\<lambda>r. ()) (rows (prepare_revenue (parse_dates td (normalize_numerics df))))"
    by (rule map_extract_coords_ign) simp_all
  also have "\<dots> = map (\<lambda>r. ()) (rows (normalize_numerics df))"
    by (rule map_load_head) simp_all
  finally have "length (map (\<lambda>r. ()) (rows (load_sales_csv td df p))) =
                length (map (\<lambda>r. ()) (rows (normalize_numerics df)))"
    by (rule arg_cong)
  then show ?thesis by (simp add: normalize_numerics_def)
qed

lemma map_prepare_revenue:
  "map (\<lambda>r. (r ''revenue_default'', r ''revenue_vta'', r ''revenue_val''))
     (rows (prepare_revenue df)) =
   map (\<lambda>r. let vta = (if ''VtaFacturada'' \<in> set (columns df) then r ''VtaFacturada'' else PyNone);
                val = (if ''ValVentaLi'' \<in> set (columns df) then r ''ValVentaLi'' else PyNone)
            in (fillna vta val, vta, val)) (rows df)"
  by (simp add: prepare_revenue_def Let_def rows_set_col columns_set_col)

lemma revenue_cells:
  "map (\<lambda>r. (r ''revenue_default'', r ''revenue_vta'', r ''revenue_val''))
     (rows (load_sales_csv td df p)) =
   map (\<lambda>r. let vta = (if ''VtaFacturada'' \<in> set (columns df)
                        then num_cell (r ''VtaFacturada'') else PyNone);
                val = (if ''ValVentaLi'' \<in> set (columns df)
                        then num_cell (r ''ValVentaLi'') else PyNone)
            in (fillna vta val, vta, val)) (rows df)"
proof -
  let ?D = "parse_dates td (normalize_numerics df)"
  have V: "''VtaFacturada'' \<in> set (columns ?D) \<longleftrightarrow> ''VtaFacturada'' \<in> set (columns df)"
    by (simp add: columns_parse_dates)
  have L: "''ValVentaLi'' \<in> set (columns ?D) \<longleftrightarrow> ''ValVentaLi'' \<in> set (columns df)"
    by (simp add: columns_parse_dates)
  have "map (\<lambda>r. (r ''revenue_default'', r ''revenue_vta'', r ''revenue_val''))
          (rows (load_sales_csv td df p)) =
        map (\<lambda>r. (r ''revenue_default'', r ''revenue_vta'', r ''revenue_val''))
          (rows (extract_coords (prepare_revenue ?D)))"
    by (rule map_load_tail) simp_all
  also have "\<dots> = map (\<lambda>r. (r ''revenue_default'', r ''revenue_vta'', r ''revenue_val''))
          (rows (prepare_revenue ?D))"
    by (rule map_extract_coords_ign) simp_all
  also have "\<dots> = map (\<lambda>r. let vta = (if ''VtaFacturada'' \<in> set (columns df) then r ''VtaFacturada'' else PyNone);
                val = (if ''ValVentaLi'' \<in> set (columns df) then r ''ValVentaLi'' else PyNone)
            in (fillna vta val, vta, val)) (rows ?D)"
    unfolding map_prepare_revenue V L ..
  also have "\<dots> = map (\<lambda>r. let vta = (if ''VtaFacturada'' \<in> set (columns df) then r ''VtaFacturada'' else PyNone);
                val = (if ''ValVentaLi'' \<in> set (columns df) then r ''ValVentaLi'' else PyNone)
            in (fillna vta val, vta, val)) (rows (normalize_numerics df))"
    by (rule map_parse_dates_ign) simp_all
  also have "\<dots> = map (\<lambda>r. let vta = (if ''VtaFacturada'' \<in> set (columns df)
                        then num_cell (r ''VtaFacturada'') else PyNone);
                val = (if ''ValVentaLi'' \<in> set (columns df)
                        then num_cell (r ''ValVentaLi'') else PyNone)
            in (fillna vta val, vta, val)) (rows df)"
    by (simp add: normalize_numerics_def numeric_cols_def Let_def)
  finally show ?thesis .
qed

lemmas num_cell_defs = num_cell_def astype_str_def of_opt_def

section \<open>The default revenue\<close>

text \<open>
  C1.  In every normalised record the default revenue is the invoiced revenue
  (\<^verbatim>\<open>VtaFacturada\<close>, as a number) when that is not missing, and the line revenue
  (\<^verbatim>\<open>ValVentaLi\<close>) otherwise, which is itself missing when it has no value.  A source
  column that the input lacks contributes \<open>PyNone\<close> and nothing else: the row is not
  read at its label.
\<close>

theorem revenue_default_fillna:
  fixes to_datetime :: "string \<Rightarrow> int option" and df :: "string option frame"
    and p :: int and i :: nat
  assumes "i < length (rows df)"
  defines "r \<equiv> rows (load_sales_csv to_datetime df p) ! i"
  defines "invoiced \<equiv> if ''VtaFacturada'' \<in> set (columns df)
                        then num_cell ((rows df ! i) ''VtaFacturada'') else PyNone"
  defines "line \<equiv> if ''ValVentaLi'' \<in> set (columns df)
                    then num_cell ((rows df ! i) ''ValVentaLi'') else PyNone"
  shows "r ''revenue_vta'' = invoiced \<and> r ''revenue_val'' = line \<and>
         r ''revenue_default'' = (if \<not> isna invoiced then invoiced else line)"
proof -
  let ?g = "\<lambda>r. (r ''revenue_default'', r ''revenue_vta'', r ''revenue_val'')"
  have len: "i < length (rows (load_sales_csv to_datetime df p))"
    using assms(1) by (simp add: length_rows_load)
  have "?g r = map ?g (rows (load_sales_csv to_datetime df p)) ! i"
    unfolding r_def using len by simp
  also have "\<dots> = (fillna invoiced line, invoiced, line)"
    unfolding revenue_cells using assms(1) by (simp add: Let_def invoiced_def line_def)
  finally show ?thesis by (simp add: fillna_def)
qed

text \<open>The table \<open>sales_one\<close>: no invoiced amount, a line amount of 7.\<close>

theorem revenue_default_fillna_witness:
  "0 < length (rows sales_one) \<and>
   (rows (load_sales_csv (\<lambda>_. None) sales_one 3) ! 0) ''revenue_vta'' = Num NaN \<and>
   (rows (load_sales_csv (\<lambda>_. None) sales_one 3) ! 0) ''revenue_val'' = Num (Fin 7) \<and>
   (rows (load_sales_csv (\<lambda>_. None) sales_one 3) ! 0) ''revenue_default'' = Num (Fin 7)"
  using revenue_default_fillna [of 0 sales_one "\<lambda>_. None" 3]
  by (simp add: sales_one_def num_cell_defs to_number_defs parse_defs)

section \<open>The coordinate columns\<close>

lemma map_extract_coords:
  "map (\<lambda>r. (r ''lat'', r ''lon'')) (rows (extract_coords df)) =
   map (\<lambda>r. if ''Georeferenciado'' \<in> set (columns df)
            then (of_opt (fst (row_latlon r)), of_opt (snd (row_latlon r)))
            else (PyNone, PyNone)) (rows df)"
  by (simp add: extract_coords_def Let_def rows_set_col columns_set_col row_latlon_def)

lemma coord_cells:
  "map (\<lambda>r. (r ''lat'', r ''lon'')) (rows (load_sales_csv td df p)) =
   map (\<lambda>r. if ''Georeferenciado'' \<in> set (columns df)
            then (of_opt (fst (extract_latlon (fillna (raw_cell (r ''Georeferenciado'')) (Str [])))),
                  of_opt (snd (extract_latlon (fillna (raw_cell (r ''Georeferenciado'')) (Str [])))))
            else (PyNone, PyNone)) (rows df)"
proof -
  let ?D = "prepare_revenue (parse_dates td (normalize_numerics df))"
  have G: "''Georeferenciado'' \<in> set (columns ?D) \<longleftrightarrow> ''Georeferenciado'' \<in> set (columns df)"
    by (simp add: columns_prepare_revenue columns_parse_dates)
  let ?g = "\<lambda>r. if ''Georeferenciado'' \<in> set (columns df)
            then (of_opt (fst (row_latlon r)), of_opt (snd (row_latlon r)))
            else (PyNone, PyNone)"
  have "map (\<lambda>r. (r ''lat'', r ''lon'')) (rows (load_sales_csv td df p)) =
        map (\<lambda>r. (r ''lat'', r ''lon'')) (rows (extract_coords ?D))"
    by (rule map_load_tail) simp_all
  also have "\<dots> = map ?g (rows ?D)"
    unfolding map_extract_coords G ..
  also have "\<dots> = map ?g (rows (normalize_numerics df))"
    by (rule map_load_head) (simp_all add: row_latlon_def)
  also have "\<dots> = map (\<lambda>r. if ''Georeferenciado'' \<in> set (columns df)
            then (of_opt (fst (extract_latlon (fillna (raw_cell (r ''Georeferenciado'')) (Str [])))),
                  of_opt (snd (extract_latlon (fillna (raw_cell (r ''Georeferenciado'')) (Str [])))))
            else (PyNone, PyNone)) (rows df)"
    by (simp add: normalize_numerics_def numeric_cols_def row_latlon_def)
  finally show ?thesis .
qed

text \<open>
  C10.  The table returned by the normaliser always has the columns \<^verbatim>\<open>lat\<close> and
  \<^verbatim>\<open>lon\<close>; when the input has no \<^verbatim>\<open>Georeferenciado\<close> column both are
  \<open>PyNone\<close> in every row.  The alias columns are different: where the source column
  of an alias is missing the normaliser does not make the alias, so the output has it
  only if the input already had a column of that name.
\<close>

theorem lat_lon_always_present:
  fixes to_datetime :: "string \<Rightarrow> int option" and df :: "string option frame" and p :: int
  defines "out \<equiv> load_sales_csv to_datetime df p"
  shows "''lat'' \<in> set (columns out) \<and> ''lon'' \<in> set (columns out) \<and>
         (''Georeferenciado'' \<notin> set (columns df) \<longrightarrow>
            list_all (\<lambda>r. r ''lat'' = PyNone \<and> r ''lon'' = PyNone) (rows out)) \<and>
         (''NombreComercial'' \<notin> set (columns df) \<longrightarrow>
            (''cliente'' \<in> set (columns out) \<longleftrightarrow> ''cliente'' \<in> set (columns df))) \<and>
         (''DescMaterial'' \<notin> set (columns df) \<longrightarrow>
            (''producto'' \<in> set (columns out) \<longleftrightarrow> ''producto'' \<in> set (columns df))) \<and>
         (''DescGrArticulo'' \<notin> set (columns df) \<longrightarrow>
            (''categoria'' \<in> set (columns out) \<longleftrightarrow> ''categoria'' \<in> set (columns df))) \<and>
         (''Ciudad'' \<notin> set (columns df) \<longrightarrow>
            (''ciudad'' \<in> set (columns out) \<longleftrightarrow> ''ciudad'' \<in> set (columns df))) \<and>
         (''ZonaVenta'' \<notin> set (columns df) \<longrightarrow>
            (''zona'' \<in> set (columns out) \<longleftrightarrow> ''zona'' \<in> set (columns df)))"
proof -
  have rows: "list_all (\<lambda>r. r ''lat'' = PyNone \<and> r ''lon'' = PyNone) (rows out)"
    if "''Georeferenciado'' \<notin> set (columns df)"
  proof -
    have "list_all (\<lambda>c. c = (PyNone, PyNone)) (map (\<lambda>r. (r ''lat'', r ''lon'')) (rows out))"
      unfolding out_def coord_cells using that by (simp add: list_all_iff)
    then show ?thesis by (simp add: list_all_iff)
  qed
  show ?thesis
    unfolding out_def columns_load using rows [unfolded out_def] by simp
qed

text \<open>The table \<open>sales_one\<close> has neither coordinates nor a client name.\<close>

theorem lat_lon_always_present_witness:
  "''Georeferenciado'' \<notin> set (columns sales_one) \<and>
   ''NombreComercial'' \<notin> set (columns sales_one) \<and>
   ''lat'' \<in> set (columns (load_sales_csv (\<lambda>_. None) sales_one 3)) \<and>
   ''lon'' \<in> set (columns (load_sales_csv (\<lambda>_. None) sales_one 3)) \<and>
   list_all (\<lambda>r. r ''lat'' = PyNone \<and> r ''lon'' = PyNone)
     (rows (load_sales_csv (\<lambda>_. None) sales_one 3)) \<and>
   ''cliente'' \<notin> set (columns (load_sales_csv (\<lambda>_. None) sales_one 3))"
  using lat_lon_always_present [of "\<lambda>_. None" sales_one 3]
  by (simp add: sales_one_def)

section \<open>The margin\<close>

lemma isna_simps [simp]: "isna PyNone" "isna (Num NaN)" "\<not> isna (Num (Fin a))"
  "\<not> isna (Num PInf)" "\<not> isna (Num NInf)"
  by (simp_all add: isna_def)

lemma fdiv_NaN_right [simp]: "fdiv x NaN = NaN"
  by (cases x) simp_all

lemma margin_pct_guard:
  "isna l \<or> l = Num (Fin 0) \<Longrightarrow> isna (Num (fdiv m (num_of (replace_zero l))))"
  by (auto simp: isna_def replace_zero_def num_of_def)

lemma map_add_margin:
  assumes "''Costo'' \<in> set (columns df)" and "''ValVentaLi'' \<in> set (columns df)"
  shows "map (\<lambda>r. (r ''margin'', r ''margin_pct'')) (rows (add_margin df)) =
         map (\<lambda>r. (Num (fsub (num_of (r ''ValVentaLi'')) (num_of (r ''Costo''))),
                   Num (fdiv (fsub (num_of (r ''ValVentaLi'')) (num_of (r ''Costo'')))
                          (num_of (replace_zero (r ''ValVentaLi'')))))) (rows df)"
  using assms by (simp add: add_margin_def rows_set_col num_of_def)

lemma margin_cells:
  assumes "''Costo'' \<in> set (columns df)" and "''ValVentaLi'' \<in> set (columns df)"
  shows "map (\<lambda>r. (r ''margin'', r ''margin_pct'')) (rows (load_sales_csv td df p)) =
         map (\<lambda>r. (Num (fsub (num_of (num_cell (r ''ValVentaLi''))) (num_of (num_cell (r ''Costo'')))),
                   Num (fdiv (fsub (num_of (num_cell (r ''ValVentaLi''))) (num_of (num_cell (r ''Costo''))))
                          (num_of (replace_zero (num_cell (r ''ValVentaLi''))))))) (rows df)"
proof -
  let ?A = "parse_dates td (normalize_numerics df)"
  let ?B = "extract_coords (prepare_revenue ?A)"
  let ?G = "set_col ''geo_cluster'' (geo_cluster_cell p) (conveniences ?B)"
  let ?g = "\<lambda>r. (Num (fsub (num_of (r ''ValVentaLi'')) (num_of (r ''Costo''))),
                   Num (fdiv (fsub (num_of (r ''ValVentaLi'')) (num_of (r ''Costo'')))
                          (num_of (replace_zero (r ''ValVentaLi'')))))"
  have cols: "''Costo'' \<in> set (columns ?G)" "''ValVentaLi'' \<in> set (columns ?G)"
    using assms
    by (simp_all add: columns_set_col columns_conveniences columns_extract_coords
        columns_prepare_revenue columns_parse_dates)
  have "map (\<lambda>r. (r ''margin'', r ''margin_pct'')) (rows (load_sales_csv td df p)) =
        map (\<lambda>r. (r ''margin'', r ''margin_pct'')) (rows (add_margin ?G))"
    by (simp add: load_sales_csv_def Let_def)
  also have "\<dots> = map ?g (rows ?G)"
    by (rule map_add_margin [OF cols])
  also have "\<dots> = map ?g (rows (conveniences ?B))"
    by (rule map_set_col_ign) simp
  also have "\<dots> = map ?g (rows ?B)"
    by (rule map_conveniences_ign) simp_all
  also have "\<dots> = map ?g (rows (prepare_revenue ?A))"
    by (rule map_extract_coords_ign) simp_all
  also have "\<dots> = map ?g (rows (normalize_numerics df))"
    by (rule map_load_head) simp_all
  also have "\<dots> = map (\<lambda>r. (Num (fsub (num_of (num_cell (r ''ValVentaLi''))) (num_of (num_cell (r ''Costo'')))),
                   Num (fdiv (fsub (num_of (num_cell (r ''ValVentaLi''))) (num_of (num_cell (r ''Costo''))))
                          (num_of (replace_zero (num_cell (r ''ValVentaLi''))))))) (rows df)"
    using assms by (simp add: normalize_numerics_def numeric_cols_def)
  finally show ?thesis .
qed

text \<open>
  C7, as the code has it.  The margin is the line revenue minus the cost, and the ratio
  is never a division by zero: where the line revenue is zero or missing the ratio is
  missing.  Where the input lacks \<^verbatim>\<open>Costo\<close> or \<^verbatim>\<open>ValVentaLi\<close> the normaliser
  makes neither column.  Nothing here raises: every operation is total on the cells
  that the numeric columns hold.
\<close>

theorem margin_pct_no_zero_division:
  fixes to_datetime :: "string \<Rightarrow> int option" and df :: "string option frame" and p :: int
  defines "out \<equiv> load_sales_csv to_datetime df p"
  shows "(''Costo'' \<in> set (columns df) \<and> ''ValVentaLi'' \<in> set (columns df) \<longrightarrow>
           (\<forall>i < length (rows df).
              (rows out ! i) ''margin'' =
                Num (fsub (num_of (num_cell ((rows df ! i) ''ValVentaLi'')))
                          (num_of (num_cell ((rows df ! i) ''Costo'')))) \<and>
              (isna (num_cell ((rows df ! i) ''ValVentaLi'')) \<or>
               num_cell ((rows df ! i) ''ValVentaLi'') = Num (Fin 0) \<longrightarrow>
               isna ((rows out ! i) ''margin_pct'')))) \<and>
         (\<not> (''Costo'' \<in> set (columns df) \<and> ''ValVentaLi'' \<in> set (columns df)) \<longrightarrow>
           (''margin'' \<in> set (columns out) \<longleftrightarrow> ''margin'' \<in> set (columns df)) \<and>
           (''margin_pct'' \<in> set (columns out) \<longleftrightarrow> ''margin_pct'' \<in> set (columns df)))"
proof (intro conjI impI allI)
  fix i
  assume cols: "''Costo'' \<in> set (columns df) \<and> ''ValVentaLi'' \<in> set (columns df)"
    and i: "i < length (rows df)"
  let ?g = "\<lambda>r. (r ''margin'', r ''margin_pct'')"
  have len: "i < length (rows out)"
    using i by (simp add: out_def length_rows_load)
  have "?g (rows out ! i) = map ?g (rows out) ! i"
    using len by simp
  also have "\<dots> = (Num (fsub (num_of (num_cell ((rows df ! i) ''ValVentaLi'')))
                              (num_of (num_cell ((rows df ! i) ''Costo'')))),
                    Num (fdiv (fsub (num_of (num_cell ((rows df ! i) ''ValVentaLi'')))
                                    (num_of (num_cell ((rows df ! i) ''Costo''))))
                          (num_of (replace_zero (num_cell ((rows df ! i) ''ValVentaLi''))))))"
    unfolding out_def using cols i by (simp add: margin_cells)
  finally have cells: "(rows out ! i) ''margin'' =
        Num (fsub (num_of (num_cell ((rows df ! i) ''ValVentaLi'')))
                  (num_of (num_cell ((rows df ! i) ''Costo''))))"
      "(rows out ! i) ''margin_pct'' =
        Num (fdiv (fsub (num_of (num_cell ((rows df ! i) ''ValVentaLi'')))
                        (num_of (num_cell ((rows df ! i) ''Costo''))))
              (num_of (replace_zero (num_cell ((rows df ! i) ''ValVentaLi'')))))"
    by simp_all
  show "(rows out ! i) ''margin'' =
        Num (fsub (num_of (num_cell ((rows df ! i) ''ValVentaLi'')))
                  (num_of (num_cell ((rows df ! i) ''Costo''))))"
    by (rule cells)
  assume "isna (num_cell ((rows df ! i) ''ValVentaLi'')) \<or>
          num_cell ((rows df ! i) ''ValVentaLi'') = Num (Fin 0)"
  then show "isna ((rows out ! i) ''margin_pct'')"
    unfolding cells by (rule margin_pct_guard)
next
  assume "\<not> (''Costo'' \<in> set (columns df) \<and> ''ValVentaLi'' \<in> set (columns df))"
  then show "''margin'' \<in> set (columns out) \<longleftrightarrow> ''margin'' \<in> set (columns df)"
    unfolding out_def columns_load by auto
next
  assume "\<not> (''Costo'' \<in> set (columns df) \<and> ''ValVentaLi'' \<in> set (columns df))"
  then show "''margin_pct'' \<in> set (columns out) \<longleftrightarrow> ''margin_pct'' \<in> set (columns df)"
    unfolding out_def columns_load by auto
qed

lemmas num_eval = num_cell_defs to_number_defs parse_defs

text \<open>The table \<open>sales_zero\<close>: a line revenue of zero and a cost of 5.\<close>

theorem margin_pct_no_zero_division_witness:
  "''Costo'' \<in> set (columns sales_zero) \<and> ''ValVentaLi'' \<in> set (columns sales_zero) \<and>
   0 < length (rows sales_zero) \<and>
   num_cell ((rows sales_zero ! 0) ''ValVentaLi'') = Num (Fin 0) \<and>
   (rows (load_sales_csv (\<lambda>_. None) sales_zero 3) ! 0) ''margin'' = Num (Fin (- 5)) \<and>
   isna ((rows (load_sales_csv (\<lambda>_. None) sales_zero 3) ! 0) ''margin_pct'')"
proof -
  have a: "''Costo'' \<in> set (columns sales_zero) \<and> ''ValVentaLi'' \<in> set (columns sales_zero)"
    by (simp add: sales_zero_def)
  have b: "(0::nat) < length (rows sales_zero)"
    by (simp add: sales_zero_def)
  have c: "num_cell ((rows sales_zero ! 0) ''ValVentaLi'') = Num (Fin 0)"
    by (simp add: sales_zero_def num_eval)
  have d: "num_cell ((rows sales_zero ! 0) ''Costo'') = Num (Fin 5)"
    by (simp add: sales_zero_def num_eval)
  from margin_pct_no_zero_division [of sales_zero "\<lambda>_. None" 3] a b
  have "(rows (load_sales_csv (\<lambda>_. None) sales_zero 3) ! 0) ''margin'' =
          Num (fsub (num_of (num_cell ((rows sales_zero ! 0) ''ValVentaLi'')))
                    (num_of (num_cell ((rows sales_zero ! 0) ''Costo'')))) \<and>
        (isna (num_cell ((rows sales_zero ! 0) ''ValVentaLi'')) \<or>
         num_cell ((rows sales_zero ! 0) ''ValVentaLi'') = Num (Fin 0) \<longrightarrow>
         isna ((rows (load_sales_csv (\<lambda>_. None) sales_zero 3) ! 0) ''margin_pct''))"
    by blast
  then show ?thesis
    using a b by (simp add: c d fsub_def num_of_def)
qed

text \<open>
  C7 as stated also excludes an infinite ratio.  The table \<open>sales_inf\<close> has a line
  revenue of 1 and the cost \<^verbatim>\<open>-inf\<close>, which \<^verbatim>\<open>_to_number\<close> accepts: the margin
  and the ratio are both infinite.
\<close>

theorem margin_pct_infinite_counterexample:
  "(rows (load_sales_csv (\<lambda>_. None) sales_inf 3) ! 0) ''margin_pct'' = Num PInf"
proof -
  let ?g = "\<lambda>r. (r ''margin'', r ''margin_pct'')"
  have c: "num_cell ((rows sales_inf ! 0) ''ValVentaLi'') = Num (Fin 1)"
    by (simp add: sales_inf_def num_eval)
  have d: "num_cell ((rows sales_inf ! 0) ''Costo'') = Num NInf"
    by (simp add: sales_inf_def num_eval)
  have "?g (rows (load_sales_csv (\<lambda>_. None) sales_inf 3) ! 0) =
        map ?g (rows (load_sales_csv (\<lambda>_. None) sales_inf 3)) ! 0"
    by (simp add: length_rows_load sales_inf_def)
  also have "\<dots> = (Num PInf, Num PInf)"
    by (subst margin_cells)
      (simp_all add: sales_inf_def num_eval fsub_def num_of_def replace_zero_def)
  finally show ?thesis by simp
qed

end
